theory Spec2Isabelle
  imports Main "HOL-Library.Char_ord" "HOL-Library.List_Lexorder"
begin

section \<open>Data model\<close>

text \<open>
  Strings are lists of characters, one \<^typ>\<open>char\<close> per code point (code points below 256).
  The exceptions that the parsing chain can raise are values of \<open>error\<close>: \<open>ValueError\<close> is
  raised by the source itself, \<open>AttributeError\<close> by calling \<open>.group()\<close> on a failed regular
  expression match (\<open>None\<close>), \<open>KeyError\<close> by a failed dictionary subscript, and
  \<open>DecimalOverflow\<close> is the trapped \<open>decimal.Overflow\<close> signal of the default context.
\<close>

datatype error = ValueError | AttributeError | KeyError | DecimalOverflow

text \<open>
  A finite, non-negative \<open>decimal.Decimal\<close>: coefficient and exponent, value
  \<open>coeff * 10 ^ expo\<close>. All decimals of the program are built from unsigned literals by
  addition and multiplication, so no sign, infinity or NaN occurs.
\<close>

datatype decimal = Dec (coeff: nat) (expo: int)

text \<open>A \<open>dict\<close> from symbol to ratio, in insertion order.\<close>

type_synonym ratio_dict = "(string \<times> decimal) list"

definition CHEMICAL_SYMBOLS :: "string list" where
  "CHEMICAL_SYMBOLS =
    [''H'', ''He'', ''Li'', ''Be'', ''B'', ''C'', ''N'', ''O'', ''F'', ''Ne'',
     ''Na'', ''Mg'', ''Al'', ''Si'', ''P'', ''S'', ''Cl'', ''Ar'', ''K'', ''Ca'',
     ''Sc'', ''Ti'', ''V'', ''Cr'', ''Mn'', ''Fe'', ''Co'', ''Ni'', ''Cu'', ''Zn'',
     ''Ga'', ''Ge'', ''As'', ''Se'', ''Br'', ''Kr'', ''Rb'', ''Sr'', ''Y'', ''Zr'',
     ''Nb'', ''Mo'', ''Tc'', ''Ru'', ''Rh'', ''Pd'', ''Ag'', ''Cd'', ''In'', ''Sn'',
     ''Sb'', ''Te'', ''I'', ''Xe'', ''Cs'', ''Ba'', ''La'', ''Ce'', ''Pr'', ''Nd'',
     ''Pm'', ''Sm'', ''Eu'', ''Gd'', ''Tb'', ''Dy'', ''Ho'', ''Er'', ''Tm'', ''Yb'',
     ''Lu'', ''Hf'', ''Ta'', ''W'', ''Re'', ''Os'', ''Ir'', ''Pt'', ''Au'', ''Hg'',
     ''Tl'', ''Pb'', ''Bi'', ''Po'', ''At'', ''Rn'', ''Fr'', ''Ra'', ''Ac'', ''Th'',
     ''Pa'', ''U'', ''Np'', ''Pu'', ''Am'', ''Cm'', ''Bk'', ''Cf'', ''Es'', ''Fm'',
     ''Md'', ''No'', ''Lr'', ''Rf'', ''Db'', ''Sg'', ''Bh'', ''Hs'', ''Mt'', ''Ds'',
     ''Rg'', ''Cn'', ''Nh'', ''Fl'', ''Mc'', ''Lv'', ''Ts'', ''Og'']"

text \<open>
  \<open>sorted(CHEMICAL_SYMBOLS, reverse=True)\<close>: the alternatives of the regular expression
  \<open>CHEMICAL_SYMBOL_PATTERN\<close>, in the order in which the matcher tries them. Strings are
  compared lexicographically by code point.
\<close>

definition CHEMICAL_SYMBOL_PATTERN :: "string list" where
  "CHEMICAL_SYMBOL_PATTERN = rev (sort CHEMICAL_SYMBOLS)"

section \<open>Strings\<close>

definition is_digit :: "char \<Rightarrow> bool" where
  "is_digit c = (CHR ''0'' \<le> c \<and> c \<le> CHR ''9'')"

definition digit_val :: "char \<Rightarrow> nat" where
  "digit_val c = of_char c - 48"

definition digit_char :: "nat \<Rightarrow> char" where
  "digit_char d = char_of (48 + d)"

text \<open>\<open>int(s)\<close> for a string of digits, and \<open>str(n)\<close> for a natural number.\<close>

definition nat_of_digits :: "string \<Rightarrow> nat" where
  "nat_of_digits s = foldl (\<lambda>n c. 10 * n + digit_val c) 0 s"

fun str_of_nat :: "nat \<Rightarrow> string" where
  "str_of_nat n =
     (if n < 10 then [digit_char n] else str_of_nat (n div 10) @ [digit_char (n mod 10)])"

declare str_of_nat.simps [simp del]

text \<open>The format \<open>"%+d"\<close>.\<close>

definition fmt_signed :: "int \<Rightarrow> string" where
  "fmt_signed i = (if i < 0 then ''-'' @ str_of_nat (nat (- i)) else ''+'' @ str_of_nat (nat i))"

text \<open>Python's adjustment of a slice bound to a string of length \<open>n\<close>.\<close>

definition slice_adjust :: "int \<Rightarrow> nat \<Rightarrow> nat" where
  "slice_adjust i n =
     (if i < 0 then (if i + int n < 0 then 0 else nat (i + int n))
      else if i > int n then n else nat i)"

text \<open>\<open>s[i:j]\<close>, \<open>s[i:]\<close> and \<open>s[:j]\<close>.\<close>

definition slice :: "string \<Rightarrow> int \<Rightarrow> int \<Rightarrow> string" where
  "slice s i j =
     (let a = slice_adjust i (length s); b = slice_adjust j (length s)
      in take (b - a) (drop a s))"

definition slice_from :: "string \<Rightarrow> int \<Rightarrow> string" where
  "slice_from s i = drop (slice_adjust i (length s)) s"

definition slice_to :: "string \<Rightarrow> int \<Rightarrow> string" where
  "slice_to s j = take (slice_adjust j (length s)) s"

text \<open>\<open>s.find(c)\<close>: the index of the first \<open>c\<close>, or \<open>-1\<close>.\<close>

definition str_find :: "string \<Rightarrow> char \<Rightarrow> int" where
  "str_find s c = (if c \<in> set s then int (length (takeWhile (\<lambda>x. x \<noteq> c) s)) else - 1)"

text \<open>
  \<open>s.rfind(c, start, end)\<close>: the index of the last \<open>c\<close> within \<open>s[start:end]\<close>, or \<open>-1\<close>.
  The bounds are adjusted as slice bounds are, so a negative \<open>end\<close> counts from the end of
  the string.
\<close>

definition str_rfind :: "string \<Rightarrow> char \<Rightarrow> int \<Rightarrow> int \<Rightarrow> int" where
  "str_rfind s c i j =
     (let a = slice_adjust i (length s); b = slice_adjust j (length s);
          seg = take (b - a) (drop a s)
      in if c \<in> set seg
         then int (a + (length seg - 1 - length (takeWhile (\<lambda>x. x \<noteq> c) (rev seg))))
         else - 1)"

text \<open>\<open>s.replace(c, '')\<close> and \<open>s.replace(c, d)\<close> for single characters.\<close>

definition remove_char :: "char \<Rightarrow> string \<Rightarrow> string" where
  "remove_char c s = filter (\<lambda>x. x \<noteq> c) s"

definition replace_char :: "char \<Rightarrow> char \<Rightarrow> string \<Rightarrow> string" where
  "replace_char c d s = map (\<lambda>x. if x = c then d else x) s"

text \<open>
  \<open>s.split()\<close>: the maximal runs of non-whitespace characters. The whitespace code points
  below 256 are 9 to 13, 28 to 32, 133 and 160.
\<close>

definition is_space :: "char \<Rightarrow> bool" where
  "is_space c = (of_char c \<in> {9, 10, 11, 12, 13, 28, 29, 30, 31, 32, 133, 160 :: nat})"

fun split_acc :: "string \<Rightarrow> string \<Rightarrow> string list" where
  "split_acc [] cur = (if cur = [] then [] else [cur])"
| "split_acc (c # cs) cur =
     (if is_space c then (if cur = [] then split_acc cs [] else cur # split_acc cs [])
      else split_acc cs (cur @ [c]))"

definition split :: "string \<Rightarrow> string list" where
  "split s = split_acc s []"

section \<open>Decimal arithmetic\<close>

text \<open>
  The default context of the \<open>decimal\<close> module: 28 significant digits, rounding half to
  even, exponents between \<open>Emin\<close> and \<open>Emax\<close>, and the \<open>Overflow\<close> signal trapped (raised
  as an exception); \<open>Underflow\<close>, \<open>Inexact\<close> and \<open>Rounded\<close> are not trapped.
\<close>

definition prec :: nat where "prec = 28"
definition Emax :: int where "Emax = 999999"
definition Emin :: int where "Emin = - 999999"
definition Etiny :: int where "Etiny = Emin - int prec + 1"
definition Etop :: int where "Etop = Emax - int prec + 1"

definition ndigits :: "nat \<Rightarrow> nat" where
  "ndigits c = length (str_of_nat c)"

text \<open>
  Rounding of an exact result to the context: a coefficient of more than \<open>prec\<close> digits
  (or an exponent below \<open>Etiny\<close>) loses its last \<open>k\<close> digits, rounded half to even.
\<close>

definition dec_fix :: "decimal \<Rightarrow> error + decimal" where
  "dec_fix d =
     (let c = coeff d; e = expo d in
      if c = 0 then Inr (Dec 0 (min (max e Etiny) Emax))
      else
        let exp_min0 = int (ndigits c) + e - int prec in
        if exp_min0 > Etop then Inl DecimalOverflow
        else
          let exp_min = max exp_min0 Etiny in
          if e < exp_min then
            let k = nat (exp_min - e);
                q = c div 10 ^ k;
                r = c mod 10 ^ k;
                up = (2 * r > 10 ^ k \<or> (2 * r = 10 ^ k \<and> odd q));
                q' = (if up then q + 1 else q)
            in if ndigits q' > prec
               then (if exp_min + 1 > Etop then Inl DecimalOverflow
                     else Inr (Dec (q' div 10) (exp_min + 1)))
               else Inr (Dec q' exp_min)
          else Inr d)"

text \<open>\<open>a + b\<close> and \<open>a * b\<close>: the exact result, rounded to the context.\<close>

definition dec_add :: "decimal \<Rightarrow> decimal \<Rightarrow> error + decimal" where
  "dec_add a b =
     (let e = min (expo a) (expo b) in
      dec_fix (Dec (coeff a * 10 ^ nat (expo a - e) + coeff b * 10 ^ nat (expo b - e)) e))"

definition dec_mul :: "decimal \<Rightarrow> decimal \<Rightarrow> error + decimal" where
  "dec_mul a b = dec_fix (Dec (coeff a * coeff b) (expo a + expo b))"

text \<open>\<open>bool(d)\<close>: a decimal is falsy exactly when it is zero.\<close>

definition dec_bool :: "decimal \<Rightarrow> bool" where
  "dec_bool d = (coeff d \<noteq> 0)"

text \<open>
  \<open>Decimal(s)\<close> for a string \<open>s\<close> matched by \<open>POSITIVE_FLOAT_PATTERN\<close> (the only strings
  the program converts): the digits before and after the point form the coefficient, the
  number of digits after the point is the negated exponent. The conversion is exact.
\<close>

definition Decimal :: "string \<Rightarrow> decimal" where
  "Decimal s =
     (let intpart = takeWhile is_digit s;
          fracpart = drop (length intpart + 1) s
      in Dec (nat_of_digits (intpart @ fracpart)) (- int (length fracpart)))"

text \<open>
  \<open>str(d)\<close>: plain notation when the exponent is at most 0 and more than \<open>-6\<close> digits
  stand left of the point, scientific notation otherwise.
\<close>

definition dec_str :: "decimal \<Rightarrow> string" where
  "dec_str d =
     (let digits = str_of_nat (coeff d);
          len = int (length digits);
          leftdigits = expo d + len;
          dotplace = (if expo d \<le> 0 \<and> leftdigits > - 6 then leftdigits else 1);
          intpart = (if dotplace \<le> 0 then ''0''
                     else if dotplace \<ge> len
                     then digits @ replicate (nat (dotplace - len)) (CHR ''0'')
                     else take (nat dotplace) digits);
          fracpart = (if dotplace \<le> 0
                      then ''.'' @ replicate (nat (- dotplace)) (CHR ''0'') @ digits
                      else if dotplace \<ge> len then []
                      else ''.'' @ drop (nat dotplace) digits);
          exp = (if leftdigits = dotplace then []
                 else ''E'' @ fmt_signed (leftdigits - dotplace))
      in intpart @ fracpart @ exp)"

section \<open>Regular expression matchers\<close>

text \<open>
  \<open>_prog_chemical_symbol.match(s)\<close>: the first alternative of the pattern that \<open>s\<close> starts
  with. \<open>_prog_positive_float.match(s)\<close>: the pattern \<open>[0-9]+(\.[0-9]+)?\<close> at the start of
  \<open>s\<close>, greedy. Both return the matched text (\<open>match.group()\<close>) or \<open>None\<close>.
\<close>

definition startswith :: "string \<Rightarrow> string \<Rightarrow> bool" where
  "startswith s p = (take (length p) s = p)"

definition match_chemical_symbol :: "string \<Rightarrow> string option" where
  "match_chemical_symbol s = find (\<lambda>sym. startswith s sym) CHEMICAL_SYMBOL_PATTERN"

definition match_positive_float :: "string \<Rightarrow> string option" where
  "match_positive_float s =
     (let intpart = takeWhile is_digit s; rest = dropWhile is_digit s in
      if intpart = [] then None
      else (case rest of
              [] \<Rightarrow> Some intpart
            | c # rest' \<Rightarrow>
                (let fracpart = takeWhile is_digit rest' in
                 if c = CHR ''.'' \<and> fracpart \<noteq> [] then Some (intpart @ [c] @ fracpart)
                 else Some intpart)))"

section \<open>Dictionaries\<close>

text \<open>\<open>d.get(k)\<close> is \<^term>\<open>map_of d k\<close>; \<open>d.get(k, v)\<close> and \<open>d[k] = v\<close> follow.\<close>

definition dict_get_default :: "ratio_dict \<Rightarrow> string \<Rightarrow> decimal \<Rightarrow> decimal" where
  "dict_get_default d k v = (case map_of d k of None \<Rightarrow> v | Some x \<Rightarrow> x)"

fun dict_set :: "ratio_dict \<Rightarrow> string \<Rightarrow> decimal \<Rightarrow> ratio_dict" where
  "dict_set [] k v = [(k, v)]"
| "dict_set ((k', v') # d) k v = (if k' = k then (k, v) # d else (k', v') # dict_set d k v)"

section \<open>The flat formula parser\<close>

text \<open>Every alternative of the symbol pattern is a non-empty string, so a match consumes input.\<close>

lemma set_CHEMICAL_SYMBOL_PATTERN: "set CHEMICAL_SYMBOL_PATTERN = set CHEMICAL_SYMBOLS"
  by (simp add: CHEMICAL_SYMBOL_PATTERN_def)

lemma CHEMICAL_SYMBOLS_nonempty: "y \<in> set CHEMICAL_SYMBOLS \<Longrightarrow> y \<noteq> []"
  by (auto simp: CHEMICAL_SYMBOLS_def)

lemma match_chemical_symbol_in_table:
  "match_chemical_symbol s = Some y \<Longrightarrow> y \<in> set CHEMICAL_SYMBOLS"
  unfolding match_chemical_symbol_def set_CHEMICAL_SYMBOL_PATTERN [symmetric]
  by (auto simp: find_Some_iff)

lemma match_chemical_symbol_nonempty: "match_chemical_symbol s = Some y \<Longrightarrow> y \<noteq> []"
  by (blast dest: match_chemical_symbol_in_table CHEMICAL_SYMBOLS_nonempty)

text \<open>
  The \<open>while\<close> loop of \<open>_parse_atomic_ratio_from_expanded_chemical_formula\<close>, on its two
  variables \<open>formula\<close> and \<open>result\<close>. It returns their values when the loop ends (by its
  condition or by \<open>break\<close>), or the exception that leaves it.
\<close>

function parse_loop :: "string \<Rightarrow> ratio_dict \<Rightarrow> error + (string \<times> ratio_dict)" where
  "parse_loop formula result =
     (if length formula > 0 then
        (case match_chemical_symbol formula of
           None \<Rightarrow> Inr (formula, result)
         | Some chemical_symbol \<Rightarrow>
             (let formula1 = drop (length chemical_symbol) formula;
                  (atomic_ratio, formula2) =
                     (case match_positive_float formula1 of
                        None \<Rightarrow> (Decimal ''1'', formula1)
                      | Some atomic_ratio_str \<Rightarrow>
                          (Decimal atomic_ratio_str, drop (length atomic_ratio_str) formula1))
              in (case dec_add (dict_get_default result chemical_symbol (Decimal ''0'')) atomic_ratio of
                    Inl e \<Rightarrow> Inl e
                  | Inr new_total \<Rightarrow> parse_loop formula2 (dict_set result chemical_symbol new_total))))
      else Inr (formula, result))"
  by pat_completeness auto
termination
proof (relation "measure (\<lambda>(formula, result). length formula)")
  show "wf (measure (\<lambda>(formula, result). length formula))" by simp
next
  fix formula :: string and result :: ratio_dict and chemical_symbol formula1 p atomic_ratio formula2 new_total
  assume nonempty: "0 < length formula"
    and m: "match_chemical_symbol formula = Some chemical_symbol"
    and f1: "formula1 = drop (length chemical_symbol) formula"
    and p: "p = (case match_positive_float formula1 of
                   None \<Rightarrow> (Decimal ''1'', formula1)
                 | Some atomic_ratio_str \<Rightarrow>
                     (Decimal atomic_ratio_str, drop (length atomic_ratio_str) formula1))"
    and p2: "(atomic_ratio, formula2) = p"
  from m have "chemical_symbol \<noteq> []" by (rule match_chemical_symbol_nonempty)
  with nonempty f1 have "length formula1 < length formula" by simp
  moreover from p p2 have "length formula2 \<le> length formula1"
    by (auto split: option.splits)
  ultimately show "((formula2, dict_set result chemical_symbol new_total), (formula, result))
      \<in> measure (\<lambda>(formula, result). length formula)"
    by simp
qed

declare parse_loop.simps [simp del]

definition parse_atomic_ratio_from_expanded_chemical_formula :: "string \<Rightarrow> error + ratio_dict" where
  "parse_atomic_ratio_from_expanded_chemical_formula expanded_chemical_formula =
     (case parse_loop expanded_chemical_formula [] of
        Inl e \<Rightarrow> Inl e
      | Inr (formula, result) \<Rightarrow> if length formula > 0 then Inl ValueError else Inr result)"

section \<open>The serializer\<close>

text \<open>The \<open>for\<close> loop of \<open>_convert_ratio_dict_to_str\<close> over the symbols still to visit.\<close>

fun convert_loop :: "string list \<Rightarrow> ratio_dict \<Rightarrow> string \<Rightarrow> string" where
  "convert_loop [] ratio_dict result = result"
| "convert_loop (chemical_symbol # symbols) ratio_dict result =
     (case map_of ratio_dict chemical_symbol of
        None \<Rightarrow> convert_loop symbols ratio_dict result
      | Some atomic_ratio \<Rightarrow>
          if dec_bool atomic_ratio
          then convert_loop symbols ratio_dict (result @ chemical_symbol @ dec_str atomic_ratio)
          else convert_loop symbols ratio_dict result)"

definition convert_ratio_dict_to_str :: "ratio_dict \<Rightarrow> string" where
  "convert_ratio_dict_to_str ratio_dict = convert_loop CHEMICAL_SYMBOLS ratio_dict []"

section \<open>The innermost-group expander\<close>

text \<open>
  The loop \<open>for chemical_symbol in ratio_dict.keys(): ratio_dict[chemical_symbol] *= r\<close>,
  over the keys still to visit.
\<close>

fun scale_loop :: "string list \<Rightarrow> ratio_dict \<Rightarrow> decimal \<Rightarrow> error + ratio_dict" where
  "scale_loop [] ratio_dict parentheses_ratio = Inr ratio_dict"
| "scale_loop (chemical_symbol # keys) ratio_dict parentheses_ratio =
     (case map_of ratio_dict chemical_symbol of
        None \<Rightarrow> Inl KeyError
      | Some v \<Rightarrow>
          (case dec_mul v parentheses_ratio of
             Inl e \<Rightarrow> Inl e
           | Inr v' \<Rightarrow> scale_loop keys (dict_set ratio_dict chemical_symbol v') parentheses_ratio))"

text \<open>
  \<open>_expand_innermost_atomic_ratio\<close>. The last operand of the returned concatenation calls
  \<open>ratio_match.group()\<close> whether or not the multiplier matched; on \<open>None\<close> that call raises
  \<open>AttributeError\<close>.
\<close>

definition expand_innermost_atomic_ratio :: "string \<Rightarrow> error + string" where
  "expand_innermost_atomic_ratio chemical_formula =
     (let right_parenthesis_idx = str_find chemical_formula (CHR '')'');
          left_parenthesis_idx = str_rfind chemical_formula (CHR ''('') 0 right_parenthesis_idx
      in
      if right_parenthesis_idx < 0 then
        (if left_parenthesis_idx < 0 then Inr chemical_formula else Inl ValueError)
      else if left_parenthesis_idx < 0 then Inl ValueError
      else
        let ratio_match = match_positive_float (slice_from chemical_formula (right_parenthesis_idx + 1));
            parentheses_ratio = (case ratio_match of None \<Rightarrow> Decimal ''1'' | Some g \<Rightarrow> Decimal g)
        in
        (case parse_atomic_ratio_from_expanded_chemical_formula
                (slice chemical_formula (left_parenthesis_idx + 1) right_parenthesis_idx) of
           Inl e \<Rightarrow> Inl e
         | Inr ratio_dict \<Rightarrow>
             (case scale_loop (map fst ratio_dict) ratio_dict parentheses_ratio of
                Inl e \<Rightarrow> Inl e
              | Inr ratio_dict' \<Rightarrow>
                  (let expanded_str = convert_ratio_dict_to_str ratio_dict' in
                   (case ratio_match of
                      None \<Rightarrow> Inl AttributeError
                    | Some g \<Rightarrow>
                        Inr (slice_to chemical_formula left_parenthesis_idx @ expanded_str
                             @ slice_from chemical_formula
                                 (right_parenthesis_idx + int (length g) + 1)))))))"

section \<open>The formula expansion driver\<close>

text \<open>
  The loop of \<open>_get_expanded_chemical_formula\<close> ends because every application of the
  expander that changes the formula removes a closing parenthesis. The number of
  occurrences of a character is the measure.
\<close>

definition count_char :: "char \<Rightarrow> string \<Rightarrow> nat" where
  "count_char c s = length (filter (\<lambda>x. x = c) s)"

lemma slice_from_nonneg: "0 \<le> i \<Longrightarrow> slice_from s i = drop (nat i) s"
  by (auto simp: slice_from_def slice_adjust_def)

lemma slice_to_nonneg: "0 \<le> j \<Longrightarrow> slice_to s j = take (nat j) s"
  by (auto simp: slice_to_def slice_adjust_def)

lemma str_find_nonneg:
  "0 \<le> str_find s c \<Longrightarrow> c \<in> set s \<and> str_find s c = int (length (takeWhile (\<lambda>x. x \<noteq> c) s))"
  by (auto simp: str_find_def split: if_splits)

lemma slice_adjust_nonneg: "0 \<le> i \<Longrightarrow> slice_adjust i n = min (nat i) n"
  by (auto simp: slice_adjust_def)

lemma str_rfind_less:
  assumes j: "0 \<le> j"
  shows "str_rfind s c 0 j < j"
proof -
  define seg where "seg = take (min (nat j) (length s)) s"
  have eq: "str_rfind s c 0 j =
      (if c \<in> set seg
       then int (length seg - 1 - length (takeWhile (\<lambda>x. x \<noteq> c) (rev seg))) else - 1)"
    using j by (simp add: str_rfind_def Let_def slice_adjust_nonneg seg_def)
  have len: "int (length seg) \<le> j" using j by (simp add: seg_def)
  show ?thesis
  proof (cases "c \<in> set seg")
    case True
    then have "0 < length seg" by (cases seg) auto
    then have "int (length seg - 1 - length (takeWhile (\<lambda>x. x \<noteq> c) (rev seg))) < int (length seg)"
      by linarith
    with len True eq show ?thesis by simp
  next
    case False
    with j eq show ?thesis by simp
  qed
qed

lemma digit_chars: "list_all (\<lambda>d. digit_char d \<in> set ''0123456789'') [0..<10]"
  by code_simp

lemma digit_char_is_digit: "d < 10 \<Longrightarrow> digit_char d \<in> set ''0123456789''"
  using digit_chars by (simp add: list_all_iff del: upt_Suc)

lemma set_str_of_nat: "set (str_of_nat n) \<subseteq> set ''0123456789''"
proof (induction n rule: str_of_nat.induct)
  case (1 n)
  show ?case
  proof (cases "n < 10")
    case True
    then show ?thesis using digit_char_is_digit [of n] by (subst str_of_nat.simps) simp
  next
    case False
    have "n mod 10 < 10" by simp
    from digit_char_is_digit [OF this] 1 [OF False] False show ?thesis
      by (subst str_of_nat.simps) simp
  qed
qed

lemma set_dec_str: "set (dec_str d) \<subseteq> set ''0123456789.E+-''"
proof -
  define A where "A = set ''0123456789.E+-''"
  have "set ''0123456789'' \<subseteq> A" unfolding A_def by (simp add: subset_iff)
  with set_str_of_nat have dig: "\<And>n. set (str_of_nat n) \<subseteq> A" by (rule subset_trans)
  have pt: "CHR ''.'' \<in> A" "CHR ''0'' \<in> A" "CHR ''E'' \<in> A" "CHR ''+'' \<in> A" "CHR ''-'' \<in> A"
    by (simp_all add: A_def)
  have tk: "\<And>k n. set (take k (str_of_nat n)) \<subseteq> A"
    using dig set_take_subset by (rule subset_trans [rotated])
  have dr: "\<And>k n. set (drop k (str_of_nat n)) \<subseteq> A"
    using dig set_drop_subset by (rule subset_trans [rotated])
  have fs: "\<And>i. set (fmt_signed i) \<subseteq> A"
    using dig pt by (simp add: fmt_signed_def)
  have "set (dec_str d) \<subseteq> A"
    unfolding dec_str_def Let_def using dig tk dr fs pt by (simp add: subset_iff)
  then show ?thesis by (simp only: A_def)
qed

lemma CHEMICAL_SYMBOLS_no_parenthesis:
  "y \<in> set CHEMICAL_SYMBOLS \<Longrightarrow> CHR ''('' \<notin> set y \<and> CHR '')'' \<notin> set y"
  by (auto simp: CHEMICAL_SYMBOLS_def)

lemma dec_str_no_parenthesis: "CHR ''('' \<notin> set (dec_str d) \<and> CHR '')'' \<notin> set (dec_str d)"
  using set_dec_str [of d] by auto

lemma convert_loop_no_parenthesis:
  assumes "set symbols \<subseteq> set CHEMICAL_SYMBOLS" and "c = CHR ''('' \<or> c = CHR '')''"
    and "c \<notin> set result"
  shows "c \<notin> set (convert_loop symbols ratio_dict result)"
  using assms
proof (induction symbols arbitrary: result)
  case Nil
  then show ?case by simp
next
  case (Cons y symbols)
  from Cons.prems have y: "c \<notin> set y"
    using CHEMICAL_SYMBOLS_no_parenthesis [of y] by auto
  from Cons.prems have d: "\<And>r. c \<notin> set (dec_str r)"
    using dec_str_no_parenthesis by auto
  from Cons.prems have sub: "set symbols \<subseteq> set CHEMICAL_SYMBOLS" by simp
  show ?case
    using Cons.IH [OF sub Cons.prems(2)] Cons.prems(3) y d
    by (auto split: option.splits)
qed

lemma convert_ratio_dict_to_str_no_parenthesis:
  "CHR ''('' \<notin> set (convert_ratio_dict_to_str d) \<and> CHR '')'' \<notin> set (convert_ratio_dict_to_str d)"
  unfolding convert_ratio_dict_to_str_def
  using convert_loop_no_parenthesis [of CHEMICAL_SYMBOLS _ "[]" d] by simp

lemma count_char_append [simp]: "count_char c (xs @ ys) = count_char c xs + count_char c ys"
  by (simp add: count_char_def)

lemma count_char_zero: "c \<notin> set s \<Longrightarrow> count_char c s = 0"
  by (auto simp: count_char_def filter_empty_conv)

lemma count_char_zero_iff: "count_char c s = 0 \<longleftrightarrow> c \<notin> set s"
  by (auto simp: count_char_def filter_empty_conv)

lemma count_char_drop: "count_char c (drop n s) \<le> count_char c s"
proof -
  have "count_char c s = count_char c (take n s) + count_char c (drop n s)"
    by (simp flip: count_char_append)
  then show ?thesis by simp
qed

text \<open>What a normal return of the expander looks like.\<close>

lemma expand_innermost_Inr:
  assumes "expand_innermost_atomic_ratio f = Inr f'"
  shows "(f' = f \<and> CHR '')'' \<notin> set f) \<or>
         (\<exists>l r g d. 0 \<le> l \<and> l < r \<and> r = str_find f (CHR '')'') \<and>
            l = str_rfind f (CHR ''('') 0 r \<and>
            match_positive_float (slice_from f (r + 1)) = Some g \<and>
            f' = take (nat l) f @ convert_ratio_dict_to_str d @ drop (nat (r + int (length g) + 1)) f)"
proof (cases "str_find f (CHR '')'') < 0")
  case True
  with assms have "f' = f"
    by (auto simp: expand_innermost_atomic_ratio_def Let_def split: if_splits)
  moreover from True have "CHR '')'' \<notin> set f"
    by (auto simp: str_find_def split: if_splits)
  ultimately show ?thesis by simp
next
  case False
  define r where "r = str_find f (CHR '')'')"
  define l where "l = str_rfind f (CHR ''('') 0 r"
  from False have r0: "0 \<le> r" by (simp add: r_def)
  then have lr: "l < r" unfolding l_def by (rule str_rfind_less)
  from assms False have l0: "0 \<le> l"
    by (auto simp: expand_innermost_atomic_ratio_def Let_def r_def l_def split: if_splits)
  from assms False l0 obtain g d where
    g: "match_positive_float (slice_from f (r + 1)) = Some g" and
    f': "f' = slice_to f l @ convert_ratio_dict_to_str d @ slice_from f (r + int (length g) + 1)"
    by (auto simp: expand_innermost_atomic_ratio_def Let_def r_def l_def
        split: if_splits sum.splits option.splits)
  from f' l0 r0 have "f' = take (nat l) f @ convert_ratio_dict_to_str d @ drop (nat (r + int (length g) + 1)) f"
    by (simp add: slice_to_nonneg slice_from_nonneg)
  with l0 lr g show ?thesis unfolding r_def l_def by blast
qed

lemma expand_innermost_decreases:
  assumes "expand_innermost_atomic_ratio f = Inr f'" and "f' \<noteq> f"
  shows "count_char (CHR '')'') f' < count_char (CHR '')'') f"
proof -
  let ?c = "CHR '')''"
  from expand_innermost_Inr [OF assms(1)] assms(2)
  have "\<exists>l r g d. 0 \<le> l \<and> l < r \<and> r = str_find f ?c \<and>
            l = str_rfind f (CHR ''('') 0 r \<and>
            match_positive_float (slice_from f (r + 1)) = Some g \<and>
            f' = take (nat l) f @ convert_ratio_dict_to_str d @ drop (nat (r + int (length g) + 1)) f"
    by (elim disjE) simp_all
  then obtain l r g d where all: "0 \<le> l \<and> l < r \<and> r = str_find f ?c \<and>
            l = str_rfind f (CHR ''('') 0 r \<and>
            match_positive_float (slice_from f (r + 1)) = Some g \<and>
            f' = take (nat l) f @ convert_ratio_dict_to_str d @ drop (nat (r + int (length g) + 1)) f"
    by (elim exE)
  then have l0: "0 \<le> l" and lr: "l < r" and r: "r = str_find f ?c" and
    f': "f' = take (nat l) f @ convert_ratio_dict_to_str d @ drop (nat (r + int (length g) + 1)) f"
    by blast+
  from l0 lr r have "0 \<le> str_find f ?c" by simp
  from str_find_nonneg [OF this] r have mem: "?c \<in> set f"
    and r': "r = int (length (takeWhile (\<lambda>x. x \<noteq> ?c) f))" by simp_all
  define pre where "pre = takeWhile (\<lambda>x. x \<noteq> ?c) f"
  have pre_take: "pre = take (nat r) f"
    unfolding pre_def r' by (simp flip: takeWhile_eq_take)
  have pre_no: "?c \<notin> set pre" unfolding pre_def by (auto dest: set_takeWhileD)
  from mem have "dropWhile (\<lambda>x. x \<noteq> ?c) f \<noteq> []" by (simp add: dropWhile_eq_Nil_conv) 
  moreover have "\<And>x xs. dropWhile (\<lambda>x. x \<noteq> ?c) f = x # xs \<Longrightarrow> x = ?c"
    using hd_dropWhile [of "\<lambda>x. x \<noteq> ?c" f] by fastforce
  ultimately obtain post where post: "dropWhile (\<lambda>x. x \<noteq> ?c) f = ?c # post"
    by (cases "dropWhile (\<lambda>x. x \<noteq> ?c) f") auto
  have f: "f = pre @ ?c # post"
    unfolding pre_def post [symmetric] by simp
  have cf: "count_char ?c f = Suc (count_char ?c post)"
    by (subst f) (simp add: count_char_zero [OF pre_no], simp add: count_char_def)
  have "set (take (nat l) f) \<subseteq> set (take (nat r) f)"
    using lr by (intro set_take_subset_set_take) simp
  with pre_no pre_take have c1: "count_char ?c (take (nat l) f) = 0"
    by (auto intro: count_char_zero)
  have c2: "count_char ?c (convert_ratio_dict_to_str d) = 0"
    using convert_ratio_dict_to_str_no_parenthesis by (auto intro: count_char_zero)
  have "nat (r + int (length g) + 1) = length pre + 1 + length g"
    unfolding r' pre_def by simp
  then have "drop (nat (r + int (length g) + 1)) f = drop (length g) post"
    by (subst f) simp
  then have c3: "count_char ?c (drop (nat (r + int (length g) + 1)) f) \<le> count_char ?c post"
    by (simp add: count_char_drop)
  from c1 c2 c3 cf show ?thesis unfolding f' by simp
qed

text \<open>
  The loop \<open>while formula != prev_formula\<close>. On entry \<open>prev_formula\<close> is \<open>None\<close>, so the
  body runs at least once; \<open>expand_loop\<close> is one run of the body on the current formula,
  followed by the loop test.
\<close>

function expand_loop :: "string \<Rightarrow> error + string" where
  "expand_loop prev_formula =
     (case expand_innermost_atomic_ratio prev_formula of
        Inl e \<Rightarrow> Inl e
      | Inr formula \<Rightarrow> if formula \<noteq> prev_formula then expand_loop formula else Inr formula)"
  by pat_completeness auto
termination
proof (relation "measure (count_char (CHR '')''))")
  show "wf (measure (count_char (CHR '')'')))" by simp
next
  fix prev_formula formula :: string
  assume "expand_innermost_atomic_ratio prev_formula = Inr formula"
    and "formula \<noteq> prev_formula"
  then have "count_char (CHR '')'') formula < count_char (CHR '')'') prev_formula"
    by (rule expand_innermost_decreases)
  then show "(formula, prev_formula) \<in> measure (count_char (CHR '')''))" by simp
qed


declare expand_loop.simps [simp del]

definition get_expanded_chemical_formula :: "string \<Rightarrow> error + string" where
  "get_expanded_chemical_formula chemical_formula = expand_loop chemical_formula"

section \<open>The top-level scanner\<close>

text \<open>
  The \<open>for\<close> loop of \<open>parse_atomic_ratio\<close> over the tokens still to try. Only \<open>ValueError\<close>
  is caught; \<open>result\<close> is still the empty \<open>dict\<close> when the tokens run out.
\<close>

fun token_loop :: "string list \<Rightarrow> error + ratio_dict" where
  "token_loop [] = Inr []"
| "token_loop (token # tokens) =
     (case (case get_expanded_chemical_formula token of
              Inl e \<Rightarrow> Inl e
            | Inr expanded_formula \<Rightarrow>
                parse_atomic_ratio_from_expanded_chemical_formula expanded_formula) of
        Inl ValueError \<Rightarrow> token_loop tokens
      | Inl e \<Rightarrow> Inl e
      | Inr result \<Rightarrow> Inr result)"

definition normalize :: "string \<Rightarrow> string" where
  "normalize string =
     replace_char (CHR '','') (CHR '' '')
       (remove_char (CHR ''}'') (remove_char (CHR ''{'') (remove_char (CHR ''_'') string)))"

definition parse_atomic_ratio :: "string \<Rightarrow> error + ratio_dict" where
  "parse_atomic_ratio string = token_loop (split (normalize string))"

section \<open>Claims settled by evaluation\<close>

text \<open>
  C1 (innermost group without a multiplier). The claim is that a group whose closing
  parenthesis is not followed by a decimal literal, such as \<open>(PbTe)\<close>, is expanded with
  the default multiplier 1. The expander does set the multiplier to 1, parses \<open>PbTe\<close> and
  serializes it, but then calls \<open>ratio_match.group()\<close> on the failed match: on \<open>(PbTe)\<close> it
  raises \<open>AttributeError\<close> instead of returning \<open>Te1Pb1\<close>.
\<close>

theorem C1_expander_without_multiplier_raises:
  "expand_innermost_atomic_ratio ''(PbTe)'' = Inl AttributeError"
  by code_simp

text \<open>
  C2 (no error reaches the caller of the top-level parse). The scanner catches
  \<open>ValueError\<close> only, so the \<open>AttributeError\<close> of the expander leaves \<open>parse_atomic_ratio\<close>:
  on the input \<open>(PbTe)\<close> the caller receives the exception, not a mapping.
\<close>

theorem C2_parse_atomic_ratio_propagates_error:
  "parse_atomic_ratio ''(PbTe)'' = Inl AttributeError"
  by code_simp

text \<open>
  C3 (scenario 3). \<open>parse_atomic_ratio\<close> on \<open>(TePb(PbS)0.3)0.1(BiTe)2\<close> returns the mapping
  \<open>{Te: 2.1, Pb: 0.13, S: 0.03, Bi: 2}\<close>: the \<open>dict\<close> holds these four entries (inserted in
  the order S, Te, Pb, Bi), as a mapping it equals the one of the claim, the quantities
  read \<open>0.03\<close>, \<open>2.1\<close>, \<open>0.13\<close> and \<open>2\<close>, and \<open>0.3 * 0.1\<close> is exactly \<open>0.03\<close> (coefficient 3,
  exponent -2).
\<close>

theorem C3_nested_groups_scenario:
  "parse_atomic_ratio ''(TePb(PbS)0.3)0.1(BiTe)2''
     = Inr [(''S'', Dec 3 (- 2)), (''Te'', Dec 21 (- 1)), (''Pb'', Dec 13 (- 2)), (''Bi'', Dec 2 0)]
   \<and> map_of [(''S'', Dec 3 (- 2)), (''Te'', Dec 21 (- 1)), (''Pb'', Dec 13 (- 2)), (''Bi'', Dec 2 0)]
     = map_of [(''Te'', Dec 21 (- 1)), (''Pb'', Dec 13 (- 2)), (''S'', Dec 3 (- 2)), (''Bi'', Dec 2 0)]
   \<and> map dec_str [Dec 21 (- 1), Dec 13 (- 2), Dec 3 (- 2), Dec 2 0] = [''2.1'', ''0.13'', ''0.03'', ''2'']
   \<and> dec_mul (Decimal ''0.3'') (Decimal ''0.1'') = Inr (Dec 3 (- 2))"
proof (intro conjI)
  show "parse_atomic_ratio ''(TePb(PbS)0.3)0.1(BiTe)2''
     = Inr [(''S'', Dec 3 (- 2)), (''Te'', Dec 21 (- 1)), (''Pb'', Dec 13 (- 2)), (''Bi'', Dec 2 0)]"
    by code_simp
  show "map_of [(''S'', Dec 3 (- 2)), (''Te'', Dec 21 (- 1)), (''Pb'', Dec 13 (- 2)), (''Bi'', Dec 2 0)]
     = map_of [(''Te'', Dec 21 (- 1)), (''Pb'', Dec 13 (- 2)), (''S'', Dec 3 (- 2)), (''Bi'', Dec 2 0)]"
    by (auto simp: fun_eq_iff)
  show "map dec_str [Dec 21 (- 1), Dec 13 (- 2), Dec 3 (- 2), Dec 2 0] = [''2.1'', ''0.13'', ''0.03'', ''2'']"
    by code_simp
  show "dec_mul (Decimal ''0.3'') (Decimal ''0.1'') = Inr (Dec 3 (- 2))"
    by code_simp
qed

text \<open>
  C4 (the driver ends with a formula free of parentheses). The loop does end on every
  input (\<open>expand_loop\<close> is a total function, by \<open>expand_innermost_decreases\<close>), but its
  result can keep an opening parenthesis: with no \<open>)\<close> in the formula, \<open>find\<close> gives \<open>-1\<close>,
  and \<open>rfind('(', 0, -1)\<close> searches all but the last character. On \<open>H(\<close> the expander
  therefore finds no parenthesis and returns its input, and the driver returns \<open>H(\<close>
  normally.
\<close>

theorem C4_driver_keeps_trailing_parenthesis:
  "get_expanded_chemical_formula ''H('' = Inr ''H(''
   \<and> CHR ''('' \<in> set ''H(''
   \<and> str_find ''H('' (CHR '')'') = - 1
   \<and> str_rfind ''H('' (CHR ''('') 0 (- 1) = - 1"
  by code_simp

text \<open>
  C8 (the first token that parses wins). On \<open>Pb0.95Na0.04Te, Bi2Te3\<close> the scanner returns
  \<open>{Pb: 0.95, Na: 0.04, Te: 1}\<close>, as the claim says. But a token ahead of the first one
  that parses may end the scan: on \<open>(H) He\<close> the token \<open>(H)\<close> raises \<open>AttributeError\<close>,
  which is not caught, and the mapping \<open>{He: 1}\<close> of the token \<open>He\<close> is never returned.
\<close>

theorem C8_scan_stops_at_uncaught_error:
  "split (normalize ''(H) He'') = [''(H)'', ''He'']
   \<and> get_expanded_chemical_formula ''(H)'' = Inl AttributeError
   \<and> parse_atomic_ratio ''He'' = Inr [(''He'', Dec 1 0)]
   \<and> parse_atomic_ratio ''(H) He'' = Inl AttributeError
   \<and> parse_atomic_ratio ''Pb0.95Na0.04Te, Bi2Te3''
       = Inr [(''Pb'', Dec 95 (- 2)), (''Na'', Dec 4 (- 2)), (''Te'', Dec 1 0)]"
  by code_simp

end
